theory Spec2Isabelle
  imports Main "HOL-Library.Multiset"
begin

section \<open>GestStock.py: stock ledger, alert journal and parcel preparation\<close>

text \<open>
  Shallow embedding of \<^verbatim>\<open>src/GestStock.py\<close>.

  Text is \<^typ>\<open>string\<close>. The embedding covers ASCII input (character codes below 128):
  the classification of white space, digits and letters below is the one Python gives to
  those characters. Codes above 127 are outside the embedding: there Python counts 0x85
  and 0xA0 as white space, in \<^verbatim>\<open>str.strip\<close> and in \<^verbatim>\<open>int\<close> alike, and
  \<^verbatim>\<open>str.upper\<close> changes 0xB5, 0xDF and the letters from 0xE0 on. The only character
  above 127 in this file is the accented letter in the line printed by
  \<^verbatim>\<open>_afficher_colis\<close>, written \<open>CHR 0xE9\<close>.

  The three service objects share one alert journal and one standard output, so the state
  is a single record: the dictionary \<^verbatim>\<open>GestionStock.stock\<close>, the deque
  \<^verbatim>\<open>GestionAlertes.log\<close> and the list of the texts printed so far, one entry for
  each call of \<^verbatim>\<open>print\<close>.
\<close>

subsection \<open>Data model\<close>

record produit =
  type_p :: string
  volume :: int

record alerte =
  message :: string

datatype py_error = IndexError | ValueError | KeyError

record world =
  stock :: "string \<rightharpoonup> produit list"
  log :: "alerte list"
  stdout :: "string list"

text \<open>The state after the three constructors of \<^verbatim>\<open>main\<close> have run.\<close>

definition init_world :: world where
  "init_world = \<lparr>stock = Map.empty, log = [], stdout = []\<rparr>"

definition SEUIL_MIN :: nat where
  "SEUIL_MIN = 2"

subsection \<open>Python's string and integer built-ins\<close>

text \<open>\<^verbatim>\<open>str.isspace\<close> on ASCII: tab, line feed, vertical tab, form feed, carriage
  return, the four separators 28 to 31, and space.\<close>

definition py_isspace :: "char \<Rightarrow> bool" where
  "py_isspace c =
     (c \<in> set [CHR 0x09, CHR 0x0A, CHR 0x0B, CHR 0x0C, CHR 0x0D,
               CHR 0x1C, CHR 0x1D, CHR 0x1E, CHR 0x1F, CHR 0x20])"

definition strip :: "string \<Rightarrow> string" where
  "strip s = rev (dropWhile py_isspace (rev (dropWhile py_isspace s)))"

text \<open>\<^verbatim>\<open>s.split(',')\<close>: \<open>cur\<close> is the token being read.\<close>

fun split_from :: "string \<Rightarrow> string \<Rightarrow> string list" where
  "split_from cur [] = [cur]"
| "split_from cur (c # cs) =
     (if c = CHR '','' then cur # split_from [] cs else split_from (cur @ [c]) cs)"

definition split_comma :: "string \<Rightarrow> string list" where
  "split_comma s = split_from [] s"

definition upper_char :: "char \<Rightarrow> char" where
  "upper_char c =
     (case map_of (zip ''abcdefghijklmnopqrstuvwxyz'' ''ABCDEFGHIJKLMNOPQRSTUVWXYZ'') c of
        Some u \<Rightarrow> u
      | None \<Rightarrow> c)"

definition upper :: "string \<Rightarrow> string" where
  "upper s = map upper_char s"

definition is_digit :: "char \<Rightarrow> bool" where
  "is_digit c = (48 \<le> (of_char c :: nat) \<and> (of_char c :: nat) \<le> 57)"

definition digit_val :: "char \<Rightarrow> int" where
  "digit_val c = int (of_char c) - 48"

text \<open>The digits of an integer literal after its sign: they start with a digit, and an
  underscore stands only between two digits. \<open>digits_tail\<close> reads what follows a
  digit.\<close>

fun digits_tail :: "string \<Rightarrow> bool" where
  "digits_tail [] = True"
| "digits_tail [c] = is_digit c"
| "digits_tail (c # d # ds) =
     (if is_digit c then digits_tail (d # ds)
      else c = CHR ''_'' \<and> is_digit d \<and> digits_tail ds)"

definition digits_ok :: "string \<Rightarrow> bool" where
  "digits_ok s = (case s of [] \<Rightarrow> False | c # cs \<Rightarrow> is_digit c \<and> digits_tail cs)"

definition digits_value :: "string \<Rightarrow> int" where
  "digits_value s = foldl (\<lambda>acc c. 10 * acc + digit_val c) 0 (filter is_digit s)"

text \<open>CPython refuses a decimal literal of more than 4300 digits with ValueError
  (the default of \<^verbatim>\<open>sys.set_int_max_str_digits\<close>).\<close>

definition int_max_str_digits :: nat where
  "int_max_str_digits = 4300"

definition unsigned_int :: "string \<Rightarrow> int option" where
  "unsigned_int s =
     (if digits_ok s \<and> length (filter is_digit s) \<le> int_max_str_digits
      then Some (digits_value s) else None)"

text \<open>The white space that \<^verbatim>\<open>int\<close> skips around the literal of an ASCII string:
  tab, line feed, vertical tab, form feed, carriage return and space. The separators 28
  to 31, which \<^verbatim>\<open>str.strip\<close> removes, are not among them: \<^verbatim>\<open>int\<close> raises ValueError
  on them.\<close>

definition int_isspace :: "char \<Rightarrow> bool" where
  "int_isspace c = (c \<in> set [CHR 0x09, CHR 0x0A, CHR 0x0B, CHR 0x0C, CHR 0x0D, CHR 0x20])"

definition int_strip :: "string \<Rightarrow> string" where
  "int_strip s = rev (dropWhile int_isspace (rev (dropWhile int_isspace s)))"

text \<open>\<^verbatim>\<open>int(s)\<close> of a string: white space around is dropped, one sign is allowed,
  then the digits. \<open>None\<close> is ValueError.\<close>

definition py_int :: "string \<Rightarrow> int option" where
  "py_int s =
     (case int_strip s of
        [] \<Rightarrow> None
      | c # cs \<Rightarrow>
          if c = CHR ''-'' then map_option uminus (unsigned_int cs)
          else if c = CHR ''+'' then unsigned_int cs
          else unsigned_int (c # cs))"

text \<open>\<^verbatim>\<open>str(n)\<close> of an integer.\<close>

fun str_nat :: "nat \<Rightarrow> string" where
  "str_nat n =
     (if n < 10 then [''0123456789'' ! n]
      else str_nat (n div 10) @ [''0123456789'' ! (n mod 10)])"

declare str_nat.simps [simp del]

definition str_int :: "int \<Rightarrow> string" where
  "str_int i = (if i < 0 then CHR ''-'' # str_nat (nat (- i)) else str_nat (nat i))"

text \<open>\<^verbatim>\<open>sep.join(xs)\<close>.\<close>

fun join :: "string \<Rightarrow> string list \<Rightarrow> string" where
  "join sep [] = []"
| "join sep [x] = x"
| "join sep (x # y # ys) = x @ sep @ join sep (y # ys)"

text \<open>\<^verbatim>\<open>sorted(xs, key=key, reverse=r)\<close>. The sort is stable; with
  \<^verbatim>\<open>reverse=True\<close> CPython reverses the list, sorts it and reverses the result, which
  keeps elements of equal key in their original order.\<close>

definition py_sorted :: "('a \<Rightarrow> int) \<Rightarrow> bool \<Rightarrow> 'a list \<Rightarrow> 'a list" where
  "py_sorted key reverse xs =
     (if reverse then rev (sort_key key (rev xs)) else sort_key key xs)"

text \<open>\<^verbatim>\<open>deque(maxlen=n).append(x)\<close>: the element goes to the right, and when the
  deque has grown beyond \<open>maxlen\<close> its leftmost element is removed.\<close>

definition deque_append :: "nat \<Rightarrow> 'a list \<Rightarrow> 'a \<Rightarrow> 'a list" where
  "deque_append maxlen d x = (let d' = d @ [x] in if length d' > maxlen then tl d' else d')"

text \<open>\<^verbatim>\<open>del d[i]\<close> for \<open>i \<ge> 0\<close>.\<close>

definition del_index :: "'a list \<Rightarrow> nat \<Rightarrow> py_error + 'a list" where
  "del_index xs i = (if i < length xs then Inr (take i xs @ drop (Suc i) xs) else Inl IndexError)"

definition print :: "world \<Rightarrow> string \<Rightarrow> world" where
  "print w s = w\<lparr>stdout := stdout w @ [s]\<rparr>"

text \<open>\<^verbatim>\<open>Produit.__str__\<close>.\<close>

definition str_produit :: "produit \<Rightarrow> string" where
  "str_produit p = type_p p @ str_int (volume p)"

subsection \<open>GestionAlertes\<close>

definition ajouter_alerte :: "world \<Rightarrow> string \<Rightarrow> world" where
  "ajouter_alerte w msg =
     print (w\<lparr>log := deque_append 3 (log w) \<lparr>message = msg\<rparr>\<rparr>) (''[ALERTE] '' @ msg)"

definition afficher_alertes :: "world \<Rightarrow> world" where
  "afficher_alertes w =
     (let w1 = print w (CHR 0x0A # ''--- JOURNAL DES ALERTES ---'');
          w2 = (if log w1 = [] then print w1 ''Aucune alerte active.'' else w1)
      in foldl (\<lambda>u a. print u (''Log: '' @ message a)) w2 (log w2))"

subsection \<open>GestionStock\<close>

text \<open>The two expressions \<^verbatim>\<open>code[0].upper()\<close> and \<^verbatim>\<open>int(code[1:])\<close>, evaluated in
  this order by both \<^verbatim>\<open>_ajouter_unitaire\<close> and \<^verbatim>\<open>_recuperer_ou_gerer_rupture\<close>:
  IndexError on the empty code, ValueError when the rest is no integer.\<close>

definition parse_code :: "string \<Rightarrow> py_error + (string \<times> int)" where
  "parse_code code =
     (case code of
        [] \<Rightarrow> Inl IndexError
      | c # cs \<Rightarrow> (case py_int cs of None \<Rightarrow> Inl ValueError | Some v \<Rightarrow> Inr (upper [c], v)))"

text \<open>\<^verbatim>\<open>_ajouter_unitaire\<close>: the handler catches IndexError and ValueError, the only
  exceptions its \<^verbatim>\<open>try\<close> block raises. \<open>q\<close> is the queue of the kind once the
  missing key has received its empty deque.\<close>

definition ajouter_unitaire :: "world \<Rightarrow> string \<Rightarrow> world" where
  "ajouter_unitaire w code =
     (case parse_code code of
        Inl e \<Rightarrow> print w (''Erreur format : '' @ code)
      | Inr (k, v) \<Rightarrow>
          let p = \<lparr>type_p = k, volume = v\<rparr>;
              q = (case stock w k of None \<Rightarrow> [] | Some q \<Rightarrow> q)
          in print (w\<lparr>stock := (stock w)(k \<mapsto> q @ [p])\<rparr>) (''Stock + : '' @ str_produit p))"

text \<open>The loop of \<^verbatim>\<open>ajouter_masse\<close> over the trimmed tokens.\<close>

fun ajouter_items :: "world \<Rightarrow> string list \<Rightarrow> world" where
  "ajouter_items w [] = w"
| "ajouter_items w (item # items) = ajouter_items (ajouter_unitaire w item) items"

definition ajouter_masse :: "world \<Rightarrow> string \<Rightarrow> world" where
  "ajouter_masse w chaine_saisie =
     (if chaine_saisie = [] then w
      else ajouter_items w (map strip (split_comma chaine_saisie)))"

text \<open>\<^verbatim>\<open>_verifier_seuil\<close>: \<^verbatim>\<open>self.stock[type_p]\<close> raises KeyError on a missing key.\<close>

definition verifier_seuil :: "world \<Rightarrow> string \<Rightarrow> py_error + world" where
  "verifier_seuil w k =
     (case stock w k of
        None \<Rightarrow> Inl KeyError
      | Some q \<Rightarrow>
          let qte = length q
          in if qte < SEUIL_MIN
             then Inr (ajouter_alerte w
                        (''Rupture imminente '' @ k @ '' (Stock: '' @ str_int (int qte) @ '')''))
             else Inr w)"

text \<open>The \<^verbatim>\<open>enumerate\<close> loop of \<^verbatim>\<open>retirer_produit\<close> up to its first hit: the index and
  the product of the first element whose volume is the one asked for.\<close>

fun chercher :: "produit list \<Rightarrow> int \<Rightarrow> nat \<Rightarrow> (nat \<times> produit) option" where
  "chercher [] vol_demande i = None"
| "chercher (p # rest) vol_demande i =
     (if volume p = vol_demande then Some (i, p) else chercher rest vol_demande (Suc i))"

text \<open>The result of a call that may raise is the pair of the value or exception and the
  state the call leaves behind.\<close>

definition retirer_produit ::
  "world \<Rightarrow> string \<Rightarrow> int \<Rightarrow> (py_error + produit option) \<times> world" where
  "retirer_produit w k vol_demande =
     (case stock w k of
        None \<Rightarrow> (Inr None, w)
      | Some q \<Rightarrow>
          if q = [] then (Inr None, w)
          else (case chercher q vol_demande 0 of
                  None \<Rightarrow> (Inr None, w)
                | Some (i, p) \<Rightarrow>
                    (case del_index q i of
                       Inl e \<Rightarrow> (Inl e, w)
                     | Inr q' \<Rightarrow>
                         let w1 = w\<lparr>stock := (stock w)(k \<mapsto> q')\<rparr>
                         in (case verifier_seuil w1 k of
                               Inl e \<Rightarrow> (Inl e, w1)
                             | Inr w2 \<Rightarrow> (Inr (Some p), w2)))))"

subsection \<open>GestionColis\<close>

text \<open>A \<^verbatim>\<open>Produit\<close> is always true in a condition (the dataclass defines neither
  \<^verbatim>\<open>__bool__\<close> nor \<^verbatim>\<open>__len__\<close>), so \<^verbatim>\<open>if prod\<close> and \<^verbatim>\<open>if p\<close> only tell a
  product from None. The parsing of the code is outside any \<^verbatim>\<open>try\<close>: its exception
  leaves the function.\<close>

definition recuperer_ou_gerer_rupture ::
  "world \<Rightarrow> string \<Rightarrow> (py_error + produit option) \<times> world" where
  "recuperer_ou_gerer_rupture w code =
     (case parse_code code of
        Inl e \<Rightarrow> (Inl e, w)
      | Inr (k, vol) \<Rightarrow>
          (case retirer_produit w k vol of
             (Inl e, w1) \<Rightarrow> (Inl e, w1)
           | (Inr (Some p), w1) \<Rightarrow> (Inr (Some p), w1)
           | (Inr None, w1) \<Rightarrow> (Inr None, ajouter_alerte w1 (''Rupture stock: '' @ code))))"

text \<open>The loop of \<^verbatim>\<open>preparer_colis\<close> over the codes, with the list
  \<^verbatim>\<open>produits_recuperes\<close> built so far. An exception leaves the loop.\<close>

fun recuperer_tous ::
  "world \<Rightarrow> string list \<Rightarrow> produit list \<Rightarrow> (py_error + produit list) \<times> world" where
  "recuperer_tous w [] produits_recuperes = (Inr produits_recuperes, w)"
| "recuperer_tous w (code # rest) produits_recuperes =
     (case recuperer_ou_gerer_rupture w code of
        (Inl e, w1) \<Rightarrow> (Inl e, w1)
      | (Inr None, w1) \<Rightarrow> recuperer_tous w1 rest produits_recuperes
      | (Inr (Some p), w1) \<Rightarrow> recuperer_tous w1 rest (produits_recuperes @ [p]))"

definition afficher_colis :: "world \<Rightarrow> produit list \<Rightarrow> world" where
  "afficher_colis w pile =
     print w (''-> Colis assembl'' @ [CHR 0xE9] @ '' : ['' @
              join '', '' (map str_produit pile) @ '']'')"

definition preparer_colis :: "world \<Rightarrow> string \<Rightarrow> (py_error + unit) \<times> world" where
  "preparer_colis w chaine_commande =
     (if chaine_commande = [] then (Inr (), w)
      else
        let produits_bruts = map strip (split_comma chaine_commande);
            w1 = print w (CHR 0x0A # ''--- COMMANDE : '' @ chaine_commande @ '' ---'')
        in (case recuperer_tous w1 produits_bruts [] of
              (Inl e, w2) \<Rightarrow> (Inl e, w2)
            | (Inr produits_recuperes, w2) \<Rightarrow>
                let pile_finale = py_sorted volume True produits_recuperes
                in (Inr (), afficher_colis w2 pile_finale)))"

text \<open>The stock that \<^verbatim>\<open>main\<close> loads at start.\<close>

definition seed_world :: world where
  "seed_world = ajouter_masse init_world ''A1, A2, A3, B1, B2, C3, C3, A1''"

subsection \<open>Predicates of the statements\<close>

text \<open>A kind and volume are in stock when the queue of the kind holds a product of that
  volume; an order line asking for anything else is a shortage.\<close>

definition en_stock :: "world \<Rightarrow> string \<Rightarrow> int \<Rightarrow> bool" where
  "en_stock w k v =
     (case stock w k of None \<Rightarrow> False | Some q \<Rightarrow> list_ex (\<lambda>p. volume p = v) q)"

section \<open>Properties\<close>

subsection \<open>The scan of a queue\<close>

lemma chercher_None: "chercher q v i = None \<longleftrightarrow> (\<forall>p\<in>set q. volume p \<noteq> v)"
  by (induction q arbitrary: i) auto

lemma chercher_first:
  "\<forall>x\<in>set xs. volume x \<noteq> v \<Longrightarrow> volume p = v \<Longrightarrow>
   chercher (xs @ p # ys) v i = Some (i + length xs, p)"
  by (induction xs arbitrary: i) auto

lemma chercher_Some:
  "chercher q v i = Some (j, p) \<Longrightarrow>
   \<exists>xs ys. q = xs @ p # ys \<and> volume p = v \<and> (\<forall>x\<in>set xs. volume x \<noteq> v) \<and> j = i + length xs"
proof (induction q arbitrary: i)
  case Nil
  then show ?case by simp
next
  case (Cons a q)
  show ?case
  proof (cases "volume a = v")
    case True
    with Cons.prems have "j = i" "p = a" by auto
    with True show ?thesis by (rule_tac x = "[]" in exI, rule_tac x = q in exI) simp
  next
    case False
    with Cons.prems have "chercher q v (Suc i) = Some (j, p)" by simp
    from Cons.IH [OF this] obtain xs ys where
      "q = xs @ p # ys" "volume p = v" "\<forall>x\<in>set xs. volume x \<noteq> v" "j = Suc i + length xs"
      by blast
    with False show ?thesis by (rule_tac x = "a # xs" in exI, rule_tac x = ys in exI) simp
  qed
qed

subsection \<open>The two outcomes of a withdrawal\<close>

lemma retirer_produit_absent:
  "\<not> en_stock w k v \<Longrightarrow> retirer_produit w k v = (Inr None, w)"
  by (auto simp: en_stock_def retirer_produit_def list_ex_iff chercher_None [THEN iffD2]
           split: option.splits)

lemma retirer_produit_present:
  assumes q: "stock w k = Some (xs @ p # ys)" and v: "volume p = v"
    and xs: "\<forall>x\<in>set xs. volume x \<noteq> v"
  shows "retirer_produit w k v =
           (Inr (Some p),
            let w1 = w\<lparr>stock := (stock w)(k \<mapsto> xs @ ys)\<rparr>
            in if length (xs @ ys) < 2
               then ajouter_alerte w1
                      (''Rupture imminente '' @ k @ '' (Stock: '' @
                       str_int (int (length (xs @ ys))) @ '')'')
               else w1)"
proof -
  have c: "chercher (xs @ p # ys) v 0 = Some (length xs, p)"
    using chercher_first [OF xs v, of ys 0] by simp
  have d: "del_index (xs @ p # ys) (length xs) = Inr (xs @ ys)"
    by (simp add: del_index_def)
  show ?thesis
    by (simp add: retirer_produit_def q c d verifier_seuil_def SEUIL_MIN_def Let_def)
qed

lemma en_stock_split:
  assumes "en_stock w k v"
  shows "\<exists>xs p ys. stock w k = Some (xs @ p # ys) \<and> volume p = v \<and>
                   (\<forall>x\<in>set xs. volume x \<noteq> v)"
proof -
  from assms obtain q where q: "stock w k = Some q" and ex: "\<exists>p\<in>set q. volume p = v"
    by (auto simp: en_stock_def list_ex_iff split: option.splits)
  from ex have "chercher q v 0 \<noteq> None" by (simp add: chercher_None)
  then obtain j p where "chercher q v 0 = Some (j, p)" by auto
  from chercher_Some [OF this] q show ?thesis by blast
qed

subsection \<open>The stock loaded at start\<close>

lemma seed_A:
  "stock seed_world ''A'' =
     Some [\<lparr>type_p = ''A'', volume = 1\<rparr>, \<lparr>type_p = ''A'', volume = 2\<rparr>,
           \<lparr>type_p = ''A'', volume = 3\<rparr>, \<lparr>type_p = ''A'', volume = 1\<rparr>]"
  by code_simp

lemma seed_Z: "stock seed_world ''Z'' = None"
  by code_simp

subsection \<open>Withdrawal\<close>

text \<open>
  C2. \<^verbatim>\<open>retirer_produit\<close> never raises. It returns None and leaves the state as it
  is when the kind has no queue or an empty one, and when no product of the queue has the
  volume asked for. Otherwise the queue is \<open>xs @ p # ys\<close> with \<open>p\<close> the first product of
  that volume: the call returns \<open>p\<close> and the queue becomes \<open>xs @ ys\<close>, the products before
  and after \<open>p\<close> in their order.
\<close>

theorem retirer_produit_correct:
  "(\<exists>r. fst (retirer_produit w k v) = Inr r) \<and>
   (stock w k = None \<or> stock w k = Some [] \<longrightarrow> retirer_produit w k v = (Inr None, w)) \<and>
   (stock w k = Some q \<and> (\<forall>x\<in>set q. volume x \<noteq> v) \<longrightarrow>
      retirer_produit w k v = (Inr None, w)) \<and>
   (stock w k = Some (xs @ p # ys) \<and> volume p = v \<and> (\<forall>x\<in>set xs. volume x \<noteq> v) \<longrightarrow>
      fst (retirer_produit w k v) = Inr (Some p) \<and>
      stock (snd (retirer_produit w k v)) = (stock w)(k \<mapsto> xs @ ys))"
proof (intro conjI impI)
  show "\<exists>r. fst (retirer_produit w k v) = Inr r"
  proof (cases "en_stock w k v")
    case False
    then show ?thesis by (simp add: retirer_produit_absent)
  next
    case True
    from en_stock_split [OF True] obtain xs p ys where
      "stock w k = Some (xs @ p # ys)" "volume p = v" "\<forall>x\<in>set xs. volume x \<noteq> v" by blast
    from retirer_produit_present [OF this] show ?thesis by simp
  qed
next
  assume "stock w k = None \<or> stock w k = Some []"
  then have "\<not> en_stock w k v" by (auto simp: en_stock_def)
  then show "retirer_produit w k v = (Inr None, w)" by (rule retirer_produit_absent)
next
  assume "stock w k = Some q \<and> (\<forall>x\<in>set q. volume x \<noteq> v)"
  then have "\<not> en_stock w k v" by (auto simp: en_stock_def list_ex_iff)
  then show "retirer_produit w k v = (Inr None, w)" by (rule retirer_produit_absent)
next
  assume a: "stock w k = Some (xs @ p # ys) \<and> volume p = v \<and> (\<forall>x\<in>set xs. volume x \<noteq> v)"
  then have r: "retirer_produit w k v =
           (Inr (Some p),
            let w1 = w\<lparr>stock := (stock w)(k \<mapsto> xs @ ys)\<rparr>
            in if length (xs @ ys) < 2
               then ajouter_alerte w1
                      (''Rupture imminente '' @ k @ '' (Stock: '' @
                       str_int (int (length (xs @ ys))) @ '')'')
               else w1)"
    by (intro retirer_produit_present) auto
  show "fst (retirer_produit w k v) = Inr (Some p)" by (simp add: r)
  show "stock (snd (retirer_produit w k v)) = (stock w)(k \<mapsto> xs @ ys)"
    by (simp add: r Let_def ajouter_alerte_def print_def)
qed

theorem retirer_produit_correct_witness:
  "stock seed_world ''Z'' = None \<and>
   retirer_produit seed_world ''Z'' 1 = (Inr None, seed_world) \<and>
   stock seed_world ''A'' =
     Some [\<lparr>type_p = ''A'', volume = 1\<rparr>, \<lparr>type_p = ''A'', volume = 2\<rparr>,
           \<lparr>type_p = ''A'', volume = 3\<rparr>, \<lparr>type_p = ''A'', volume = 1\<rparr>] \<and>
   9 \<notin> set (map volume [\<lparr>type_p = ''A'', volume = 1\<rparr>, \<lparr>type_p = ''A'', volume = 2\<rparr>,
                          \<lparr>type_p = ''A'', volume = 3\<rparr>, \<lparr>type_p = ''A'', volume = 1\<rparr>]) \<and>
   retirer_produit seed_world ''A'' 9 = (Inr None, seed_world) \<and>
   stock seed_world ''A'' =
     Some ([\<lparr>type_p = ''A'', volume = 1\<rparr>, \<lparr>type_p = ''A'', volume = 2\<rparr>] @
           \<lparr>type_p = ''A'', volume = 3\<rparr> # [\<lparr>type_p = ''A'', volume = 1\<rparr>]) \<and>
   volume \<lparr>type_p = ''A'', volume = 3\<rparr> = 3 \<and>
   3 \<notin> set (map volume [\<lparr>type_p = ''A'', volume = 1\<rparr>, \<lparr>type_p = ''A'', volume = 2\<rparr>]) \<and>
   fst (retirer_produit seed_world ''A'' 3) = Inr (Some \<lparr>type_p = ''A'', volume = 3\<rparr>) \<and>
   stock (snd (retirer_produit seed_world ''A'' 3)) =
     (stock seed_world)
       (''A'' \<mapsto> [\<lparr>type_p = ''A'', volume = 1\<rparr>, \<lparr>type_p = ''A'', volume = 2\<rparr>] @
                [\<lparr>type_p = ''A'', volume = 1\<rparr>])"
  using retirer_produit_correct [of seed_world "''Z''" 1]
    retirer_produit_correct [of seed_world "''A''" 9
      "[\<lparr>type_p = ''A'', volume = 1\<rparr>, \<lparr>type_p = ''A'', volume = 2\<rparr>,
        \<lparr>type_p = ''A'', volume = 3\<rparr>, \<lparr>type_p = ''A'', volume = 1\<rparr>]"]
    retirer_produit_correct [of seed_world "''A''" 3 _
      "[\<lparr>type_p = ''A'', volume = 1\<rparr>, \<lparr>type_p = ''A'', volume = 2\<rparr>]"
      "\<lparr>type_p = ''A'', volume = 3\<rparr>" "[\<lparr>type_p = ''A'', volume = 1\<rparr>]"]
  by (simp add: seed_A seed_Z)

text \<open>
  C10. A withdrawal that returns None leaves the whole state as it was: the stock, the
  alert journal and the output.
\<close>

theorem retirer_produit_echec_inchange:
  "fst (retirer_produit w k v) = Inr None \<Longrightarrow> snd (retirer_produit w k v) = w"
proof (cases "en_stock w k v")
  case False
  then show ?thesis by (simp add: retirer_produit_absent)
next
  case True
  assume n: "fst (retirer_produit w k v) = Inr None"
  from en_stock_split [OF True] obtain xs p ys where
    "stock w k = Some (xs @ p # ys)" "volume p = v" "\<forall>x\<in>set xs. volume x \<noteq> v" by blast
  from retirer_produit_present [OF this] n show ?thesis by simp
qed

theorem retirer_produit_echec_inchange_witness:
  "fst (retirer_produit seed_world ''A'' 9) = Inr None \<and>
   snd (retirer_produit seed_world ''A'' 9) = seed_world"
proof -
  have h: "fst (retirer_produit seed_world ''A'' 9) = Inr None"
    by (simp add: retirer_produit_def seed_A)
  from h retirer_produit_echec_inchange [OF h] show ?thesis by simp
qed

subsection \<open>Ingestion leaves the alert journal alone\<close>

lemma ajouter_unitaire_log: "log (ajouter_unitaire w c) = log w"
  by (simp add: ajouter_unitaire_def print_def Let_def split: sum.splits prod.splits)

lemma ajouter_unitaire_stdout:
  "\<exists>l. stdout (ajouter_unitaire w c) = stdout w @ [l] \<and> take 9 l \<noteq> ''[ALERTE] ''"
  by (simp add: ajouter_unitaire_def print_def Let_def split: sum.splits prod.splits)

lemma ajouter_items_log: "log (ajouter_items w cs) = log w"
  by (induction cs arbitrary: w) (simp_all add: ajouter_unitaire_log)

lemma ajouter_items_stdout:
  "\<exists>ls. stdout (ajouter_items w cs) = stdout w @ ls \<and> (\<forall>l\<in>set ls. take 9 l \<noteq> ''[ALERTE] '')"
proof (induction cs arbitrary: w)
  case Nil
  then show ?case by simp
next
  case (Cons c cs)
  from ajouter_unitaire_stdout [of w c] obtain l where
    l: "stdout (ajouter_unitaire w c) = stdout w @ [l]" "take 9 l \<noteq> ''[ALERTE] ''" by blast
  from Cons.IH [of "ajouter_unitaire w c"] obtain ls where
    ls: "stdout (ajouter_items (ajouter_unitaire w c) cs) = stdout (ajouter_unitaire w c) @ ls"
      "\<forall>l\<in>set ls. take 9 l \<noteq> ''[ALERTE] ''" by blast
  from l ls show ?case by (rule_tac x = "l # ls" in exI) simp
qed

subsection \<open>The threshold alert\<close>

lemma deque_append_3:
  "deque_append 3 d x = (if length d < 3 then d @ [x] else tl d @ [x])"
  by (cases d) (auto simp: deque_append_def)

lemma log_ajouter_alerte_list:
  "log (ajouter_alerte w m) =
     (if length (log w) < 3 then log w else tl (log w)) @ [\<lparr>message = m\<rparr>]"
  by (simp add: ajouter_alerte_def print_def deque_append_3)

lemma seed_log: "log seed_world = []"
  by code_simp

lemma seed_plein_log:
  "log (foldl ajouter_alerte seed_world [''a'', ''b'', ''c'']) =
     [\<lparr>message = ''a''\<rparr>, \<lparr>message = ''b''\<rparr>, \<lparr>message = ''c''\<rparr>]"
  by code_simp

lemma seed_plein_C3:
  "fst (retirer_produit (foldl ajouter_alerte seed_world [''a'', ''b'', ''c'']) ''C'' 3) =
     Inr (Some \<lparr>type_p = ''C'', volume = 3\<rparr>)"
  by code_simp

lemma seed_plein_C3_queue:
  "stock (snd (retirer_produit (foldl ajouter_alerte seed_world [''a'', ''b'', ''c'']) ''C'' 3))
     ''C'' = Some [\<lparr>type_p = ''C'', volume = 3\<rparr>]"
  by code_simp

lemma seed_C3:
  "fst (retirer_produit seed_world ''C'' 3) = Inr (Some \<lparr>type_p = ''C'', volume = 3\<rparr>)"
  by code_simp

lemma seed_C3_C3:
  "fst (retirer_produit (snd (retirer_produit seed_world ''C'' 3)) ''C'' 3) =
     Inr (Some \<lparr>type_p = ''C'', volume = 3\<rparr>)"
  by code_simp

lemma seed_C3_queue:
  "stock (snd (retirer_produit seed_world ''C'' 3)) ''C'' = Some [\<lparr>type_p = ''C'', volume = 3\<rparr>]"
  by code_simp

lemma seed_C3_C3_queue:
  "stock (snd (retirer_produit (snd (retirer_produit seed_world ''C'' 3)) ''C'' 3)) ''C'' = Some []"
  by code_simp

lemma seed_A9: "fst (retirer_produit seed_world ''A'' 9) = Inr None"
  by code_simp

text \<open>
  C3. A withdrawal that returns a product leaves a queue \<open>q\<close> for the kind. When \<open>q\<close>
  has fewer than 2 products, also none, exactly one alert is recorded: the message naming
  the kind and the length of \<open>q\<close> is put at the end of the journal, whose oldest alert
  leaves when there were 3 already, and that one alert line is printed. When \<open>q\<close> has 2
  products or more, the journal and the output are as before.
  A withdrawal that returns None changes neither, and an ingestion leaves the journal as
  it is and prints no alert line.
\<close>

theorem seuil_apres_retrait:
  "(fst (retirer_produit w k v) = Inr (Some p) \<longrightarrow>
      (\<exists>q. stock (snd (retirer_produit w k v)) k = Some q \<and>
        (if length q < 2
         then log (snd (retirer_produit w k v)) =
                (if length (log w) < 3 then log w else tl (log w)) @
                [\<lparr>message = ''Rupture imminente '' @ k @ '' (Stock: '' @
                            str_int (int (length q)) @ '')''\<rparr>] \<and>
              stdout (snd (retirer_produit w k v)) =
                stdout w @ [''[ALERTE] Rupture imminente '' @ k @ '' (Stock: '' @
                            str_int (int (length q)) @ '')'']
         else log (snd (retirer_produit w k v)) = log w \<and>
              stdout (snd (retirer_produit w k v)) = stdout w))) \<and>
   (fst (retirer_produit w k v) = Inr None \<longrightarrow>
      log (snd (retirer_produit w k v)) = log w \<and>
      stdout (snd (retirer_produit w k v)) = stdout w) \<and>
   log (ajouter_masse w s) = log w \<and>
   (\<exists>ls. stdout (ajouter_masse w s) = stdout w @ ls \<and>
         (\<forall>l\<in>set ls. take 9 l \<noteq> ''[ALERTE] ''))"
proof (intro conjI impI)
  assume s: "fst (retirer_produit w k v) = Inr (Some p)"
  have "en_stock w k v"
  proof (rule ccontr)
    assume "\<not> en_stock w k v"
    from retirer_produit_absent [OF this] s show False by simp
  qed
  from en_stock_split [OF this] obtain xs p' ys where
    "stock w k = Some (xs @ p' # ys)" "volume p' = v" "\<forall>x\<in>set xs. volume x \<noteq> v" by blast
  from retirer_produit_present [OF this]
  show "\<exists>q. stock (snd (retirer_produit w k v)) k = Some q \<and>
        (if length q < 2
         then log (snd (retirer_produit w k v)) =
                (if length (log w) < 3 then log w else tl (log w)) @
                [\<lparr>message = ''Rupture imminente '' @ k @ '' (Stock: '' @
                            str_int (int (length q)) @ '')''\<rparr>] \<and>
              stdout (snd (retirer_produit w k v)) =
                stdout w @ [''[ALERTE] Rupture imminente '' @ k @ '' (Stock: '' @
                            str_int (int (length q)) @ '')'']
         else log (snd (retirer_produit w k v)) = log w \<and>
              stdout (snd (retirer_produit w k v)) = stdout w)"
    by (rule_tac x = "xs @ ys" in exI)
       (simp add: Let_def ajouter_alerte_def print_def deque_append_3)
next
  assume n: "fst (retirer_produit w k v) = Inr None"
  have e: "snd (retirer_produit w k v) = w"
  proof (cases "en_stock w k v")
    case False
    then show ?thesis by (simp add: retirer_produit_absent)
  next
    case True
    from en_stock_split [OF True] obtain xs p ys where
      "stock w k = Some (xs @ p # ys)" "volume p = v" "\<forall>x\<in>set xs. volume x \<noteq> v" by blast
    from retirer_produit_present [OF this] n show ?thesis by simp
  qed
  show "log (snd (retirer_produit w k v)) = log w" by (simp add: e)
  show "stdout (snd (retirer_produit w k v)) = stdout w" by (simp add: e)
next
  show "log (ajouter_masse w s) = log w"
    by (simp add: ajouter_masse_def ajouter_items_log)
next
  show "\<exists>ls. stdout (ajouter_masse w s) = stdout w @ ls \<and>
         (\<forall>l\<in>set ls. take 9 l \<noteq> ''[ALERTE] '')"
    using ajouter_items_stdout [of w "map strip (split_comma s)"]
    by (cases "s = []") (simp_all add: ajouter_masse_def)
qed

theorem seuil_apres_retrait_witness:
  "fst (retirer_produit seed_world ''C'' 3) = Inr (Some \<lparr>type_p = ''C'', volume = 3\<rparr>) \<and>
   stock (snd (retirer_produit seed_world ''C'' 3)) ''C'' = Some [\<lparr>type_p = ''C'', volume = 3\<rparr>] \<and>
   log seed_world = [] \<and>
   log (snd (retirer_produit seed_world ''C'' 3)) =
     [\<lparr>message = ''Rupture imminente C (Stock: 1)''\<rparr>] \<and>
   stdout (snd (retirer_produit seed_world ''C'' 3)) =
     stdout seed_world @ [''[ALERTE] Rupture imminente C (Stock: 1)''] \<and>
   fst (retirer_produit (snd (retirer_produit seed_world ''C'' 3)) ''C'' 3) =
     Inr (Some \<lparr>type_p = ''C'', volume = 3\<rparr>) \<and>
   stock (snd (retirer_produit (snd (retirer_produit seed_world ''C'' 3)) ''C'' 3)) ''C'' = Some [] \<and>
   log (snd (retirer_produit (snd (retirer_produit seed_world ''C'' 3)) ''C'' 3)) =
     [\<lparr>message = ''Rupture imminente C (Stock: 1)''\<rparr>,
      \<lparr>message = ''Rupture imminente C (Stock: 0)''\<rparr>] \<and>
   stdout (snd (retirer_produit (snd (retirer_produit seed_world ''C'' 3)) ''C'' 3)) =
     stdout (snd (retirer_produit seed_world ''C'' 3)) @
     [''[ALERTE] Rupture imminente C (Stock: 0)''] \<and>
   log (foldl ajouter_alerte seed_world [''a'', ''b'', ''c'']) =
     [\<lparr>message = ''a''\<rparr>, \<lparr>message = ''b''\<rparr>, \<lparr>message = ''c''\<rparr>] \<and>
   fst (retirer_produit (foldl ajouter_alerte seed_world [''a'', ''b'', ''c'']) ''C'' 3) =
     Inr (Some \<lparr>type_p = ''C'', volume = 3\<rparr>) \<and>
   log (snd (retirer_produit (foldl ajouter_alerte seed_world [''a'', ''b'', ''c'']) ''C'' 3)) =
     [\<lparr>message = ''b''\<rparr>, \<lparr>message = ''c''\<rparr>,
      \<lparr>message = ''Rupture imminente C (Stock: 1)''\<rparr>] \<and>
   fst (retirer_produit seed_world ''A'' 9) = Inr None \<and>
   log (snd (retirer_produit seed_world ''A'' 9)) = log seed_world \<and>
   stdout (snd (retirer_produit seed_world ''A'' 9)) = stdout seed_world"
proof -
  let ?w1 = "snd (retirer_produit seed_world ''C'' 3)"
  let ?wf = "foldl ajouter_alerte seed_world [''a'', ''b'', ''c'']"
  have n: "str_int 1 = ''1''" "str_int 0 = ''0''"
    by (simp_all add: str_int_def str_nat.simps)
  have 1: "log ?w1 = [\<lparr>message = ''Rupture imminente C (Stock: 1)''\<rparr>]"
    "stdout ?w1 = stdout seed_world @ [''[ALERTE] Rupture imminente C (Stock: 1)'']"
    using seuil_apres_retrait [of seed_world "''C''" 3 "\<lparr>type_p = ''C'', volume = 3\<rparr>"]
    by (simp_all add: seed_C3 seed_C3_queue seed_log n)
  have 2: "log (snd (retirer_produit ?w1 ''C'' 3)) =
      [\<lparr>message = ''Rupture imminente C (Stock: 1)''\<rparr>,
       \<lparr>message = ''Rupture imminente C (Stock: 0)''\<rparr>]"
    "stdout (snd (retirer_produit ?w1 ''C'' 3)) =
       stdout ?w1 @ [''[ALERTE] Rupture imminente C (Stock: 0)'']"
    using seuil_apres_retrait [of ?w1 "''C''" 3 "\<lparr>type_p = ''C'', volume = 3\<rparr>"]
    by (simp_all add: seed_C3_C3 seed_C3_C3_queue 1 n)
  have 3: "log (snd (retirer_produit ?wf ''C'' 3)) =
      [\<lparr>message = ''b''\<rparr>, \<lparr>message = ''c''\<rparr>,
       \<lparr>message = ''Rupture imminente C (Stock: 1)''\<rparr>]"
    using seuil_apres_retrait [of ?wf "''C''" 3 "\<lparr>type_p = ''C'', volume = 3\<rparr>"]
      seed_plein_C3 seed_plein_C3_queue seed_plein_log
    by (simp add: n)
  have 4: "log (snd (retirer_produit seed_world ''A'' 9)) = log seed_world"
    "stdout (snd (retirer_produit seed_world ''A'' 9)) = stdout seed_world"
    using seuil_apres_retrait [of seed_world "''A''" 9]
    by (simp_all add: seed_A9)
  from seed_C3 seed_C3_queue seed_log 1 seed_C3_C3 seed_C3_C3_queue 2 seed_plein_log
    seed_plein_C3 3 seed_A9 4
  show ?thesis by (intro conjI)
qed

subsection \<open>The alert journal\<close>

lemma deque_append_drop:
  "length d \<le> n \<Longrightarrow> deque_append n d x = drop (length (d @ [x]) - n) (d @ [x])"
proof (cases "length d = n")
  case True
  have "drop (Suc 0) (d @ [x]) = tl (d @ [x])" by (cases d) simp_all
  with True show ?thesis by (simp add: deque_append_def)
next
  case False
  assume "length d \<le> n"
  with False show ?thesis by (simp add: deque_append_def)
qed

lemma drop_append_window:
  "drop (length (drop (length xs - n) xs @ ys) - n) (drop (length xs - n) xs @ ys) =
   drop (length (xs @ ys) - n) (xs @ ys)"
  by (cases "length xs \<le> n") (auto simp: add.commute)

lemma print_fields [simp]:
  "stock (print w s) = stock w" "log (print w s) = log w" "stdout (print w s) = stdout w @ [s]"
  by (simp_all add: print_def)

lemma log_ajouter_alerte:
  "log (ajouter_alerte w m) = deque_append 3 (log w) \<lparr>message = m\<rparr>"
  by (simp add: ajouter_alerte_def)

lemma log_foldl_ajouter_alerte:
  "length (log w) \<le> 3 \<Longrightarrow>
   log (foldl ajouter_alerte w msgs) =
     drop (length (log w @ map (\<lambda>m. \<lparr>message = m\<rparr>) msgs) - 3)
          (log w @ map (\<lambda>m. \<lparr>message = m\<rparr>) msgs)"
proof (induction msgs arbitrary: w)
  case Nil
  then show ?case by simp
next
  case (Cons m msgs)
  let ?w = "ajouter_alerte w m"
  let ?rest = "map (\<lambda>m. \<lparr>message = m\<rparr>) msgs"
  have l: "log ?w = drop (length (log w @ [\<lparr>message = m\<rparr>]) - 3) (log w @ [\<lparr>message = m\<rparr>])"
    using Cons.prems by (simp only: log_ajouter_alerte deque_append_drop)
  then have "length (log ?w) \<le> 3" by simp
  from Cons.IH [OF this]
  have "log (foldl ajouter_alerte ?w msgs) =
          drop (length (log ?w @ ?rest) - 3) (log ?w @ ?rest)" .
  also have "\<dots> = drop (length ((log w @ [\<lparr>message = m\<rparr>]) @ ?rest) - 3)
                        ((log w @ [\<lparr>message = m\<rparr>]) @ ?rest)"
    unfolding l by (rule drop_append_window)
  finally show ?case by simp
qed

lemma stdout_foldl_print:
  "stdout (foldl (\<lambda>u a. print u (f a)) w xs) = stdout w @ map f xs"
  by (induction xs arbitrary: w) simp_all

lemma log_foldl_print: "log (foldl (\<lambda>u a. print u (f a)) w xs) = log w"
  by (induction xs arbitrary: w) simp_all

lemma stock_foldl_print: "stock (foldl (\<lambda>u a. print u (f a)) w xs) = stock w"
  by (induction xs arbitrary: w) simp_all

lemma afficher_alertes_effect:
  "log (afficher_alertes w) = log w \<and> stock (afficher_alertes w) = stock w \<and>
   stdout (afficher_alertes w) =
     stdout w @ (CHR 0x0A # ''--- JOURNAL DES ALERTES ---'') #
       (if log w = [] then [''Aucune alerte active.'']
        else map (\<lambda>a. ''Log: '' @ message a) (log w))"
  by (simp add: afficher_alertes_def Let_def stdout_foldl_print log_foldl_print
        stock_foldl_print)

text \<open>
  C5. From a journal of at most 3 alerts, as the empty journal of the start is, any
  sequence of recordings leaves at most 3 alerts. After more than 3 recordings the journal
  holds the last 3 messages, oldest first, and \<^verbatim>\<open>afficher_alertes\<close> prints exactly
  these, in that order, after its header. Recording into a journal of 3 alerts drops the
  oldest one; recording into a shorter journal appends. Displaying the journal does not
  change it. Both operations are total: neither has a failing branch.
\<close>

theorem journal_alertes_borne:
  "length (log w) \<le> 3 \<longrightarrow>
     length (log (foldl ajouter_alerte w msgs)) \<le> 3 \<and>
     (3 < length msgs \<longrightarrow>
        log (foldl ajouter_alerte w msgs) =
          map (\<lambda>m. \<lparr>message = m\<rparr>) (drop (length msgs - 3) msgs) \<and>
        stdout (afficher_alertes (foldl ajouter_alerte w msgs)) =
          stdout (foldl ajouter_alerte w msgs) @
          (CHR 0x0A # ''--- JOURNAL DES ALERTES ---'') #
          map (\<lambda>m. ''Log: '' @ m) (drop (length msgs - 3) msgs)) \<and>
     (length (log w) = 3 \<longrightarrow> log (ajouter_alerte w m) = tl (log w) @ [\<lparr>message = m\<rparr>]) \<and>
     (length (log w) < 3 \<longrightarrow> log (ajouter_alerte w m) = log w @ [\<lparr>message = m\<rparr>]) \<and>
     log (afficher_alertes w) = log w"
proof (intro impI conjI)
  assume b: "length (log w) \<le> 3"
  note f = log_foldl_ajouter_alerte [OF b, of msgs]
  show "length (log (foldl ajouter_alerte w msgs)) \<le> 3"
    unfolding f by simp
  show "log (afficher_alertes w) = log w"
    by (simp add: afficher_alertes_effect)
  {
    assume "length (log w) = 3"
    then show "log (ajouter_alerte w m) = tl (log w) @ [\<lparr>message = m\<rparr>]"
      by (cases "log w") (simp_all add: log_ajouter_alerte deque_append_def)
  }
  {
    assume "length (log w) < 3"
    then show "log (ajouter_alerte w m) = log w @ [\<lparr>message = m\<rparr>]"
      by (simp add: log_ajouter_alerte deque_append_def)
  }
  {
    assume n: "3 < length msgs"
    then show l: "log (foldl ajouter_alerte w msgs) =
          map (\<lambda>m. \<lparr>message = m\<rparr>) (drop (length msgs - 3) msgs)"
      unfolding f by (simp add: drop_map)
    from n have "drop (length msgs - 3) msgs \<noteq> []" by simp
    then show "stdout (afficher_alertes (foldl ajouter_alerte w msgs)) =
          stdout (foldl ajouter_alerte w msgs) @
          (CHR 0x0A # ''--- JOURNAL DES ALERTES ---'') #
          map (\<lambda>m. ''Log: '' @ m) (drop (length msgs - 3) msgs)"
      by (simp add: afficher_alertes_effect l comp_def)
  }
qed

theorem journal_alertes_borne_witness:
  "length (log init_world) \<le> 3 \<and> 3 < length [''a'', ''b'', ''c'', ''d'', ''e''] \<and>
   log (foldl ajouter_alerte init_world [''a'', ''b'', ''c'', ''d'', ''e'']) =
     [\<lparr>message = ''c''\<rparr>, \<lparr>message = ''d''\<rparr>, \<lparr>message = ''e''\<rparr>] \<and>
   stdout (afficher_alertes (foldl ajouter_alerte init_world [''a'', ''b'', ''c'', ''d'', ''e''])) =
     stdout (foldl ajouter_alerte init_world [''a'', ''b'', ''c'', ''d'', ''e'']) @
     [CHR 0x0A # ''--- JOURNAL DES ALERTES ---'', ''Log: c'', ''Log: d'', ''Log: e''] \<and>
   length (log (foldl ajouter_alerte init_world [''a'', ''b'', ''c''])) = 3 \<and>
   log (ajouter_alerte (foldl ajouter_alerte init_world [''a'', ''b'', ''c'']) ''d'') =
     tl (log (foldl ajouter_alerte init_world [''a'', ''b'', ''c''])) @ [\<lparr>message = ''d''\<rparr>]"
proof -
  have 0: "length (log init_world) \<le> 3" by (simp add: init_world_def)
  have 3: "log (foldl ajouter_alerte init_world [''a'', ''b'', ''c'']) =
    [\<lparr>message = ''a''\<rparr>, \<lparr>message = ''b''\<rparr>, \<lparr>message = ''c''\<rparr>]"
    by (simp add: init_world_def ajouter_alerte_def print_def deque_append_def)
  show ?thesis
    using journal_alertes_borne [of init_world "[''a'', ''b'', ''c'', ''d'', ''e'']"]
      journal_alertes_borne [of "foldl ajouter_alerte init_world [''a'', ''b'', ''c'']" "[]" "''d''"]
      0 3
    by simp
qed

subsection \<open>The sorted parcel\<close>






subsection \<open>Order lines\<close>

lemma split_from_no_comma: "CHR '','' \<notin> set s \<Longrightarrow> split_from cur s = [cur @ s]"
  by (induction s arbitrary: cur) auto

lemma split_comma_single: "CHR '','' \<notin> set s \<Longrightarrow> split_comma s = [s]"
  by (simp add: split_comma_def split_from_no_comma)

lemma en_stock_print [simp]: "en_stock (print w s) k v = en_stock w k v"
  by (simp add: en_stock_def)

lemma recuperer_rupture:
  "parse_code code = Inr (k, v) \<Longrightarrow> \<not> en_stock w k v \<Longrightarrow>
   recuperer_ou_gerer_rupture w code =
     (Inr None, ajouter_alerte w (''Rupture stock: '' @ code))"
  by (simp add: recuperer_ou_gerer_rupture_def retirer_produit_absent)

text \<open>
  C6. An order line whose code reads as a kind and a volume that are not in stock is a
  shortage: \<^verbatim>\<open>_recuperer_ou_gerer_rupture\<close> returns None without raising and records
  exactly one alert, whose message carries the code as written; the loop goes on with the
  remaining lines and the same recovered products. An order made of one such code only
  completes without raising, leaves the stock as it was, records that one alert and prints
  the header, the alert and the empty parcel.
\<close>

theorem rupture_ligne:
  "(parse_code code = Inr (k, v) \<and> \<not> en_stock w k v \<longrightarrow>
      recuperer_ou_gerer_rupture w code =
        (Inr None, ajouter_alerte w (''Rupture stock: '' @ code)) \<and>
      recuperer_tous w (code # rest) acc =
        recuperer_tous (ajouter_alerte w (''Rupture stock: '' @ code)) rest acc \<and>
      stock (ajouter_alerte w (''Rupture stock: '' @ code)) = stock w \<and>
      log (ajouter_alerte w (''Rupture stock: '' @ code)) =
        (if length (log w) < 3 then log w else tl (log w)) @
        [\<lparr>message = ''Rupture stock: '' @ code\<rparr>] \<and>
      stdout (ajouter_alerte w (''Rupture stock: '' @ code)) =
        stdout w @ [''[ALERTE] Rupture stock: '' @ code]) \<and>
   (s \<noteq> [] \<and> CHR '','' \<notin> set s \<and> parse_code (strip s) = Inr (k, v) \<and> \<not> en_stock w k v \<longrightarrow>
      fst (preparer_colis w s) = Inr () \<and>
      stock (snd (preparer_colis w s)) = stock w \<and>
      log (snd (preparer_colis w s)) =
        (if length (log w) < 3 then log w else tl (log w)) @
        [\<lparr>message = ''Rupture stock: '' @ strip s\<rparr>] \<and>
      stdout (snd (preparer_colis w s)) =
        stdout w @ [CHR 0x0A # ''--- COMMANDE : '' @ s @ '' ---'',
                    ''[ALERTE] Rupture stock: '' @ strip s,
                    ''-> Colis assembl'' @ [CHR 0xE9] @ '' : []''])"
proof (intro conjI impI)
  assume a: "parse_code code = Inr (k, v) \<and> \<not> en_stock w k v"
  then have r: "recuperer_ou_gerer_rupture w code =
        (Inr None, ajouter_alerte w (''Rupture stock: '' @ code))"
    by (simp add: recuperer_rupture)
  show "recuperer_ou_gerer_rupture w code =
        (Inr None, ajouter_alerte w (''Rupture stock: '' @ code))" by (rule r)
  show "recuperer_tous w (code # rest) acc =
        recuperer_tous (ajouter_alerte w (''Rupture stock: '' @ code)) rest acc"
    by (simp add: r)
  show "stock (ajouter_alerte w (''Rupture stock: '' @ code)) = stock w"
    by (simp add: ajouter_alerte_def)
  show "log (ajouter_alerte w (''Rupture stock: '' @ code)) =
        (if length (log w) < 3 then log w else tl (log w)) @
        [\<lparr>message = ''Rupture stock: '' @ code\<rparr>]"
    by (simp add: log_ajouter_alerte_list)
  show "stdout (ajouter_alerte w (''Rupture stock: '' @ code)) =
        stdout w @ [''[ALERTE] Rupture stock: '' @ code]"
    by (simp add: ajouter_alerte_def)
next
  assume a: "s \<noteq> [] \<and> CHR '','' \<notin> set s \<and> parse_code (strip s) = Inr (k, v) \<and>
             \<not> en_stock w k v"
  let ?w1 = "print w (CHR 0x0A # ''--- COMMANDE : '' @ s @ '' ---'')"
  from a have "recuperer_ou_gerer_rupture ?w1 (strip s) =
        (Inr None, ajouter_alerte ?w1 (''Rupture stock: '' @ strip s))"
    by (intro recuperer_rupture [of _ k v]) simp_all
  then have l: "recuperer_tous ?w1 [strip s] [] =
        (Inr [], ajouter_alerte ?w1 (''Rupture stock: '' @ strip s))"
    by simp
  have p: "preparer_colis w s =
     (Inr (), afficher_colis (ajouter_alerte ?w1 (''Rupture stock: '' @ strip s)) [])"
    unfolding preparer_colis_def using a l
    by (simp add: Let_def split_comma_single py_sorted_def)
  show "fst (preparer_colis w s) = Inr ()" by (simp add: p)
  show "stock (snd (preparer_colis w s)) = stock w"
    by (simp add: p afficher_colis_def ajouter_alerte_def)
  show "log (snd (preparer_colis w s)) =
        (if length (log w) < 3 then log w else tl (log w)) @
        [\<lparr>message = ''Rupture stock: '' @ strip s\<rparr>]"
    by (simp add: p afficher_colis_def log_ajouter_alerte_list)
  show "stdout (snd (preparer_colis w s)) =
        stdout w @ [CHR 0x0A # ''--- COMMANDE : '' @ s @ '' ---'',
                    ''[ALERTE] Rupture stock: '' @ strip s,
                    ''-> Colis assembl'' @ [CHR 0xE9] @ '' : []'']"
    by (simp add: p afficher_colis_def ajouter_alerte_def)
qed

lemma parse_A9: "parse_code ''A9'' = Inr (''A'', 9)"
  by code_simp

lemma strip_A9: "strip ''A9'' = ''A9''"
  by code_simp

lemma seed_no_A9: "\<not> en_stock seed_world ''A'' 9"
  by code_simp

theorem rupture_ligne_witness:
  "parse_code ''A9'' = Inr (''A'', 9) \<and> \<not> en_stock seed_world ''A'' 9 \<and>
   recuperer_ou_gerer_rupture seed_world ''A9'' =
     (Inr None, ajouter_alerte seed_world ''Rupture stock: A9'') \<and>
   recuperer_tous seed_world [''A9'', ''B1''] [] =
     recuperer_tous (ajouter_alerte seed_world ''Rupture stock: A9'') [''B1''] [] \<and>
   fst (recuperer_tous seed_world [''A9'', ''B1''] []) = Inr [\<lparr>type_p = ''B'', volume = 1\<rparr>] \<and>
   log (ajouter_alerte seed_world ''Rupture stock: A9'') = [\<lparr>message = ''Rupture stock: A9''\<rparr>] \<and>
   stdout (ajouter_alerte seed_world ''Rupture stock: A9'') =
     stdout seed_world @ [''[ALERTE] Rupture stock: A9''] \<and>
   fst (preparer_colis seed_world ''A9'') = Inr () \<and>
   stock (snd (preparer_colis seed_world ''A9'')) = stock seed_world \<and>
   log (snd (preparer_colis seed_world ''A9'')) = [\<lparr>message = ''Rupture stock: A9''\<rparr>] \<and>
   stdout (snd (preparer_colis seed_world ''A9'')) =
     stdout seed_world @ [CHR 0x0A # ''--- COMMANDE : A9 ---'',
                          ''[ALERTE] Rupture stock: A9'',
                          ''-> Colis assembl'' @ [CHR 0xE9] @ '' : []'']"
proof -
  have b: "fst (recuperer_tous seed_world [''A9'', ''B1''] []) = Inr [\<lparr>type_p = ''B'', volume = 1\<rparr>]"
    by code_simp
  show ?thesis
    using rupture_ligne [of "''A9''" "''A''" 9 seed_world "[''B1'']" "[]" "''A9''"]
      parse_A9 seed_no_A9 b
    by (simp add: strip_A9 seed_log)
qed

text \<open>
  C1. On the stock loaded at start, the order \<open>A3, C, B1\<close> raises ValueError at its
  second line: the exception leaves \<^verbatim>\<open>preparer_colis\<close>, the line \<open>B1\<close> is never
  processed and no parcel is printed. An empty token raises IndexError, as a blank order
  does, and a remainder that is no integer raises ValueError.
\<close>

theorem preparer_colis_code_malforme:
  "fst (preparer_colis seed_world ''A3, C, B1'') = Inl ValueError \<and>
   stock (snd (preparer_colis seed_world ''A3, C, B1'')) ''B'' = stock seed_world ''B'' \<and>
   stdout (snd (preparer_colis seed_world ''A3, C, B1'')) =
     stdout seed_world @ [CHR 0x0A # ''--- COMMANDE : A3, C, B1 ---''] \<and>
   fst (preparer_colis seed_world ''A3,, B1'') = Inl IndexError \<and>
   fst (preparer_colis seed_world ''A3, Bx'') = Inl ValueError \<and>
   fst (preparer_colis seed_world '' '') = Inl IndexError"
  by code_simp

subsection \<open>Ingestion of one code\<close>

lemma digits_fold_nonneg:
  "0 \<le> a \<Longrightarrow> \<forall>c\<in>set ds. is_digit c \<Longrightarrow>
   0 \<le> foldl (\<lambda>acc c. 10 * acc + digit_val c) a ds"
proof (induction ds arbitrary: a)
  case Nil
  then show ?case by simp
next
  case (Cons d ds)
  from Cons.prems have "0 \<le> 10 * a + digit_val d"
    by (simp add: is_digit_def digit_val_def)
  with Cons show ?case by simp
qed

lemma digits_value_nonneg: "0 \<le> digits_value s"
  unfolding digits_value_def by (rule digits_fold_nonneg) simp_all

lemma unsigned_int_nonneg: "unsigned_int s = Some v \<Longrightarrow> 0 \<le> v"
  by (auto simp: unsigned_int_def digits_value_nonneg split: if_splits)

lemma py_int_negative:
  assumes "py_int s = Some v" and "v < 0"
  shows "\<exists>r. int_strip s = CHR ''-'' # r"
proof (cases "int_strip s")
  case Nil
  with assms show ?thesis by (simp add: py_int_def)
next
  case (Cons c cs)
  show ?thesis
  proof (cases "c = CHR ''-''")
    case True
    with Cons show ?thesis by simp
  next
    case False
    with Cons assms(1) have "unsigned_int cs = Some v \<or> unsigned_int (c # cs) = Some v"
      by (auto simp: py_int_def split: if_splits)
    then have "0 \<le> v" by (auto dest: unsigned_int_nonneg)
    with assms(2) show ?thesis by simp
  qed
qed

lemma py_int_Nil: "py_int [] = None"
  by (simp add: py_int_def int_strip_def)

text \<open>
  C7, as the code has it. \<^verbatim>\<open>_ajouter_unitaire\<close> stores the integer that
  \<^verbatim>\<open>int\<close> reads in the remainder of the code, sign included: the product goes to the
  end of the queue of the uppercased first character, and the addition is printed. The
  stored volume is negative only when the remainder, without the white space that
  \<^verbatim>\<open>int\<close> skips, begins with a minus sign. A separator 28 to 31 in the remainder is
  no such white space: the code is a format error.
  When the code is empty or its remainder is no integer, the stock is unchanged and the
  format error naming the code is printed. The alert journal is never touched.
\<close>

theorem ajouter_unitaire_volume:
  "(code = c # cs \<and> py_int cs = Some v \<longrightarrow>
      stock (ajouter_unitaire w code) =
        (stock w)(upper [c] \<mapsto>
           (case stock w (upper [c]) of None \<Rightarrow> [] | Some q \<Rightarrow> q) @
           [\<lparr>type_p = upper [c], volume = v\<rparr>]) \<and>
      stdout (ajouter_unitaire w code) = stdout w @ [''Stock + : '' @ upper [c] @ str_int v]) \<and>
   (code = [] \<or> (code = c # cs \<and> py_int cs = None) \<longrightarrow>
      stock (ajouter_unitaire w code) = stock w \<and>
      stdout (ajouter_unitaire w code) = stdout w @ [''Erreur format : '' @ code]) \<and>
   (py_int cs = Some v \<and> v < 0 \<longrightarrow> (\<exists>r. int_strip cs = CHR ''-'' # r)) \<and>
   log (ajouter_unitaire w code) = log w"
proof (intro conjI impI)
  assume "code = c # cs \<and> py_int cs = Some v"
  then have p: "parse_code code = Inr (upper [c], v)" by (simp add: parse_code_def)
  show "stock (ajouter_unitaire w code) =
        (stock w)(upper [c] \<mapsto>
           (case stock w (upper [c]) of None \<Rightarrow> [] | Some q \<Rightarrow> q) @
           [\<lparr>type_p = upper [c], volume = v\<rparr>])"
    by (simp add: ajouter_unitaire_def p Let_def)
  show "stdout (ajouter_unitaire w code) = stdout w @ [''Stock + : '' @ upper [c] @ str_int v]"
    by (simp add: ajouter_unitaire_def p Let_def str_produit_def)
next
  assume "code = [] \<or> (code = c # cs \<and> py_int cs = None)"
  then have p: "\<exists>e. parse_code code = Inl e" by (auto simp: parse_code_def)
  then show "stock (ajouter_unitaire w code) = stock w"
    by (auto simp: ajouter_unitaire_def)
  from p show "stdout (ajouter_unitaire w code) = stdout w @ [''Erreur format : '' @ code]"
    by (auto simp: ajouter_unitaire_def)
next
  assume "py_int cs = Some v \<and> v < 0"
  then show "\<exists>r. int_strip cs = CHR ''-'' # r" by (auto intro: py_int_negative)
next
  show "log (ajouter_unitaire w code) = log w" by (rule ajouter_unitaire_log)
qed

lemma py_int_m5: "py_int ''-5'' = Some (- 5)" by code_simp
lemma py_int_x: "py_int ''x'' = None" by code_simp
lemma py_int_sep: "py_int [CHR 0x1F, CHR ''5''] = None" by code_simp
lemma upper_A: "upper ''A'' = ''A''" by code_simp
lemma str_int_m5: "str_int (- 5) = ''-5''" by code_simp

theorem ajouter_unitaire_volume_witness:
  "py_int ''-5'' = Some (- 5) \<and>
   stock (ajouter_unitaire init_world ''A-5'') =
     (stock init_world)(''A'' \<mapsto> [\<lparr>type_p = ''A'', volume = - 5\<rparr>]) \<and>
   stdout (ajouter_unitaire init_world ''A-5'') = stdout init_world @ [''Stock + : A-5''] \<and>
   (\<exists>r. int_strip ''-5'' = CHR ''-'' # r) \<and>
   py_int ''x'' = None \<and>
   stock (ajouter_unitaire init_world ''Ax'') = stock init_world \<and>
   stdout (ajouter_unitaire init_world ''Ax'') = stdout init_world @ [''Erreur format : Ax''] \<and>
   stock (ajouter_unitaire init_world '''') = stock init_world \<and>
   stdout (ajouter_unitaire init_world '''') = stdout init_world @ [''Erreur format : ''] \<and>
   py_int [CHR 0x1F, CHR ''5''] = None \<and>
   stock (ajouter_unitaire init_world [CHR ''A'', CHR 0x1F, CHR ''5'']) = stock init_world \<and>
   stdout (ajouter_unitaire init_world [CHR ''A'', CHR 0x1F, CHR ''5'']) =
     stdout init_world @ [''Erreur format : '' @ [CHR ''A'', CHR 0x1F, CHR ''5'']]"
proof -
  have s: "stock init_world ''A'' = None" by (simp add: init_world_def)
  show ?thesis
    using ajouter_unitaire_volume [of "''A-5''" "CHR ''A''" "''-5''" "- 5" init_world]
      ajouter_unitaire_volume [of "''Ax''" "CHR ''A''" "''x''" _ init_world]
      ajouter_unitaire_volume [of "''''" _ _ _ init_world]
      ajouter_unitaire_volume [of "[CHR ''A'', CHR 0x1F, CHR ''5'']" "CHR ''A''"
        "[CHR 0x1F, CHR ''5'']" _ init_world]
    by (simp add: py_int_m5 py_int_x py_int_sep upper_A str_int_m5 s)
qed

text \<open>
  C7 as stated fails: the code \<open>A-5\<close> is accepted and stores a product of volume \<open>-5\<close>.
\<close>

theorem ajouter_unitaire_negatif:
  "stock (ajouter_unitaire init_world ''A-5'') ''A'' = Some [\<lparr>type_p = ''A'', volume = - 5\<rparr>] \<and>
   volume \<lparr>type_p = ''A'', volume = - 5\<rparr> < 0 \<and>
   stdout (ajouter_unitaire init_world ''A-5'') = [''Stock + : A-5'']"
  by code_simp

subsection \<open>Ingestion of a batch\<close>

lemma strip_blank:
  assumes "\<forall>c\<in>set s. py_isspace c"
  shows "strip s = []"
proof -
  from assms have d: "dropWhile py_isspace s = []" by (simp add: dropWhile_eq_Nil_conv)
  show ?thesis unfolding strip_def d by simp
qed

lemma comma_not_space: "\<not> py_isspace (CHR '','')"
  by (simp add: py_isspace_def)

lemma blank_no_comma: "\<forall>c\<in>set s. py_isspace c \<Longrightarrow> CHR '','' \<notin> set s"
  using comma_not_space by blast

lemma ajouter_items_foldl: "ajouter_items w cs = foldl ajouter_unitaire w cs"
  by (induction cs arbitrary: w) simp_all

lemma ajouter_unitaire_Nil: "ajouter_unitaire w [] = print w ''Erreur format : ''"
  by (simp add: ajouter_unitaire_def parse_code_def)

text \<open>
  C8, as the code has it. On the empty string \<^verbatim>\<open>ajouter_masse\<close> returns at once:
  nothing changes and nothing is printed. On a non-empty string of white space only, the
  stock is unchanged but one format error, for the empty token, is printed. On every
  non-empty string the text is split on commas, each token is trimmed, and every token,
  the empty ones included, goes to \<^verbatim>\<open>_ajouter_unitaire\<close>, which reports an empty
  token as a format error.
\<close>

theorem ajouter_masse_jetons:
  "ajouter_masse w [] = w \<and>
   (s \<noteq> [] \<and> (\<forall>c\<in>set s. py_isspace c) \<longrightarrow>
      ajouter_masse w s = print w ''Erreur format : '' \<and>
      stock (ajouter_masse w s) = stock w \<and>
      stdout (ajouter_masse w s) = stdout w @ [''Erreur format : '']) \<and>
   (s \<noteq> [] \<longrightarrow> ajouter_masse w s = foldl ajouter_unitaire w (map strip (split_comma s))) \<and>
   ajouter_unitaire w [] = print w ''Erreur format : ''"
proof (intro conjI impI)
  show "ajouter_masse w [] = w" by (simp add: ajouter_masse_def)
  show "ajouter_unitaire w [] = print w ''Erreur format : ''" by (rule ajouter_unitaire_Nil)
  {
    assume "s \<noteq> []"
    then show "ajouter_masse w s = foldl ajouter_unitaire w (map strip (split_comma s))"
      by (simp add: ajouter_masse_def ajouter_items_foldl)
  }
  {
    assume a: "s \<noteq> [] \<and> (\<forall>c\<in>set s. py_isspace c)"
    then have "split_comma s = [s]" "strip s = []"
      by (simp_all add: split_comma_single blank_no_comma strip_blank)
    with a show m: "ajouter_masse w s = print w ''Erreur format : ''"
      by (simp add: ajouter_masse_def ajouter_unitaire_Nil)
    show "stock (ajouter_masse w s) = stock w" by (simp add: m)
    show "stdout (ajouter_masse w s) = stdout w @ [''Erreur format : '']" by (simp add: m)
  }
qed

theorem ajouter_masse_jetons_witness:
  "''  '' \<noteq> [] \<and> list_all py_isspace ''  '' \<and>
   ajouter_masse seed_world ''  '' = print seed_world ''Erreur format : '' \<and>
   stock (ajouter_masse seed_world ''  '') = stock seed_world \<and>
   stdout (ajouter_masse seed_world ''  '') = stdout seed_world @ [''Erreur format : ''] \<and>
   ajouter_masse seed_world ''A1,,B2'' =
     foldl ajouter_unitaire seed_world (map strip (split_comma ''A1,,B2'')) \<and>
   map strip (split_comma ''A1,,B2'') = [''A1'', [], ''B2'']"
proof -
  have t: "map strip (split_comma ''A1,,B2'') = [''A1'', [], ''B2'']" by code_simp
  have b: "list_all py_isspace ''  ''" by code_simp
  then have b': "\<forall>c\<in>set ''  ''. py_isspace c" by (simp add: list_all_iff)
  have n: "''  '' \<noteq> []" by simp
  note 1 = ajouter_masse_jetons [of seed_world "''  ''", THEN conjunct2, THEN conjunct1, THEN mp,
      OF conjI [OF n b']]
  have n2: "''A1,,B2'' \<noteq> []" by simp
  note 2 = ajouter_masse_jetons [of seed_world "''A1,,B2''", THEN conjunct2, THEN conjunct2,
      THEN conjunct1, THEN mp, OF n2]
  from 1 have 1: "ajouter_masse seed_world ''  '' = print seed_world ''Erreur format : ''"
      "stock (ajouter_masse seed_world ''  '') = stock seed_world"
      "stdout (ajouter_masse seed_world ''  '') = stdout seed_world @ [''Erreur format : '']"
    by blast+
  from n b 1 2 t show ?thesis by (intro conjI)
qed

text \<open>
  C8 as stated fails: a blank input prints a format error, and the empty token between two
  commas is routed to single ingestion and reported.
\<close>

theorem ajouter_masse_blanc_signale:
  "stdout (ajouter_masse init_world '' '') = [''Erreur format : ''] \<and>
   stdout (ajouter_masse init_world ''A1,,B2'') =
     [''Stock + : A1'', ''Erreur format : '', ''Stock + : B2'']"
  by code_simp

subsection \<open>Ingestion, then withdrawal\<close>

lemma tokens_A1_B2: "map strip (split_comma ''A1, B2'') = [''A1'', ''B2'']"
  by code_simp

lemma parse_A1: "parse_code ''A1'' = Inr (''A'', 1)"
  by code_simp

lemma parse_B2: "parse_code ''B2'' = Inr (''B'', 2)"
  by code_simp

lemma not_en_stock_queue:
  "\<not> en_stock w k v \<Longrightarrow>
   \<forall>x\<in>set (case stock w k of None \<Rightarrow> [] | Some q \<Rightarrow> q). volume x \<noteq> v"
  by (auto simp: en_stock_def list_ex_iff split: option.splits)

lemma stock_ajouter_alerte [simp]: "stock (ajouter_alerte w m) = stock w"
  by (simp add: ajouter_alerte_def)

text \<open>
  C9. From any state that stocks neither a product of volume 1 in kind \<open>A\<close> nor one of
  volume 2 in kind \<open>B\<close>, after the ingestion of \<open>A1, B2\<close> the withdrawal of volume 1 from
  \<open>A\<close> and then of volume 2 from \<open>B\<close> both return a product, of the kind and volume
  ingested.
\<close>

theorem aller_retour:
  "\<not> en_stock w ''A'' 1 \<and> \<not> en_stock w ''B'' 2 \<longrightarrow>
     fst (retirer_produit (ajouter_masse w ''A1, B2'') ''A'' 1) =
       Inr (Some \<lparr>type_p = ''A'', volume = 1\<rparr>) \<and>
     fst (retirer_produit (snd (retirer_produit (ajouter_masse w ''A1, B2'') ''A'' 1)) ''B'' 2) =
       Inr (Some \<lparr>type_p = ''B'', volume = 2\<rparr>)"
proof
  assume a: "\<not> en_stock w ''A'' 1 \<and> \<not> en_stock w ''B'' 2"
  let ?qa = "case stock w ''A'' of None \<Rightarrow> [] | Some q \<Rightarrow> q"
  let ?qb = "case stock w ''B'' of None \<Rightarrow> [] | Some q \<Rightarrow> q"
  let ?A1 = "\<lparr>type_p = ''A'', volume = 1\<rparr>"
  let ?B2 = "\<lparr>type_p = ''B'', volume = 2\<rparr>"
  let ?w1 = "ajouter_masse w ''A1, B2''"
  from a have nA: "\<not> en_stock w ''A'' 1" and nB: "\<not> en_stock w ''B'' 2" by simp_all
  have qa: "\<forall>x\<in>set ?qa. volume x \<noteq> 1" by (rule not_en_stock_queue [OF nA])
  have qb: "\<forall>x\<in>set ?qb. volume x \<noteq> 2" by (rule not_en_stock_queue [OF nB])
  have m: "?w1 = ajouter_unitaire (ajouter_unitaire w ''A1'') ''B2''"
    by (simp add: ajouter_masse_def tokens_A1_B2)
  have sA: "stock ?w1 ''A'' = Some (?qa @ ?A1 # [])"
    unfolding m by (simp add: ajouter_unitaire_def parse_A1 parse_B2 Let_def)
  have sB: "stock ?w1 ''B'' = Some (?qb @ ?B2 # [])"
    unfolding m by (simp add: ajouter_unitaire_def parse_A1 parse_B2 Let_def)
  note rA = retirer_produit_present [OF sA _ qa]
  have 1: "fst (retirer_produit ?w1 ''A'' 1) = Inr (Some ?A1)"
    by (simp add: rA)
  let ?w2 = "snd (retirer_produit ?w1 ''A'' 1)"
  have sB2: "stock ?w2 ''B'' = Some (?qb @ ?B2 # [])"
    using sB by (simp add: rA Let_def)
  note rB = retirer_produit_present [OF sB2 _ qb]
  have 2: "fst (retirer_produit ?w2 ''B'' 2) = Inr (Some ?B2)"
    by (simp add: rB)
  from 1 2 show "fst (retirer_produit ?w1 ''A'' 1) = Inr (Some ?A1) \<and>
     fst (retirer_produit ?w2 ''B'' 2) = Inr (Some ?B2)" by (rule conjI)
qed

lemma init_no_A1: "\<not> en_stock init_world ''A'' 1" by (simp add: en_stock_def init_world_def)
lemma init_no_B2: "\<not> en_stock init_world ''B'' 2" by (simp add: en_stock_def init_world_def)

theorem aller_retour_witness:
  "\<not> en_stock init_world ''A'' 1 \<and> \<not> en_stock init_world ''B'' 2 \<and>
   fst (retirer_produit (ajouter_masse init_world ''A1, B2'') ''A'' 1) =
     Inr (Some \<lparr>type_p = ''A'', volume = 1\<rparr>) \<and>
   fst (retirer_produit (snd (retirer_produit (ajouter_masse init_world ''A1, B2'') ''A'' 1)) ''B'' 2) =
     Inr (Some \<lparr>type_p = ''B'', volume = 2\<rparr>)"
  using aller_retour [of init_world] init_no_A1 init_no_B2 by blast

end
